theory Spec2Isabelle
  imports Main "HOL-Library.Sublist"
begin

section \<open>The Serper search provider (src/lib/tools/search/providers/serper.ts)\<close>

text \<open>
  The provider fans one query out to up to four Serper endpoints (web, video, image,
  news), normalises each JSON payload and merges the items into one \<open>SearchResults\<close>
  object that the four handlers mutate in place. The embedding makes explicit
  \<^item> the values JSON.parse can deliver and the JavaScript operators the code applies to
    them (\<open>||\<close>, \<open>??\<close>, property reads, \<open>slice\<close>, \<open>map\<close>);
  \<^item> every throw and rejection, as a value of type \<open>exn\<close>;
  \<^item> the network, as a function from the request sent to what \<open>fetch\<close> settles with,
    and the trace of the requests sent;
  \<^item> the order in which the pending handlers resume, since they share the result
    object; and \<open>console.error\<close>, as a list of log entries.
\<close>

subsection \<open>JavaScript values\<close>

text \<open>
  What \<open>response.json()\<close> resolves with. Numbers are only carried along and tested for
  zero, so they are integers here. An object is the list of its own properties; the
  first binding of a key is the one the object holds.
\<close>

datatype jvalue =
    JNull
  | JBool bool
  | JNum int
  | JStr string
  | JArr "jvalue list"
  | JObj "(string \<times> jvalue) list"

text \<open>
  What an expression of the provider can evaluate to: \<open>undefined\<close>, a JSON value, or the
  one inherited property that the names read by the provider can reach, the method
  \<open>String.prototype.link\<close> (a function, read by \<open>result.link\<close> when \<open>result\<close> is a string).
\<close>

datatype jsval =
    Undefined
  | Val jvalue
  | StringPrototypeLink

datatype exn =
    Error string        \<comment> \<open>\<open>new Error(message)\<close>\<close>
  | TypeError           \<comment> \<open>a property read on \<open>null\<close>, or a call of something that is no function\<close>
  | Rejection string    \<comment> \<open>the reason \<open>fetch\<close> or \<open>response.json()\<close> rejected with\<close>

fun truthy :: "jsval \<Rightarrow> bool" where
  "truthy Undefined = False"
| "truthy StringPrototypeLink = True"
| "truthy (Val JNull) = False"
| "truthy (Val (JBool b)) = b"
| "truthy (Val (JNum n)) = (n \<noteq> 0)"
| "truthy (Val (JStr s)) = (s \<noteq> [])"
| "truthy (Val (JArr xs)) = True"
| "truthy (Val (JObj fs)) = True"

fun nullish :: "jsval \<Rightarrow> bool" where
  "nullish Undefined = True"
| "nullish (Val JNull) = True"
| "nullish v = False"

text \<open>\<open>a || b\<close> and \<open>a ?? b\<close>; the right operands in the provider are literals.\<close>

definition or_else :: "jsval \<Rightarrow> jsval \<Rightarrow> jsval" where
  "or_else a b = (if truthy a then a else b)"

definition coalesce :: "jsval \<Rightarrow> jsval \<Rightarrow> jsval" where
  "coalesce a b = (if nullish a then b else a)"

definition str :: "string \<Rightarrow> jsval" where
  "str s = Val (JStr s)"

text \<open>
  The property read \<open>v.p\<close>, for the names the provider reads (organic, videos, images,
  news, title, link, snippet, imageUrl, thumbnailUrl, duration, source, channel,
  date). On \<open>null\<close> it throws; on a boolean, a number or an array none of these names is
  defined; on a string only \<open>link\<close> is, by inheritance.
\<close>

fun getProp :: "jvalue \<Rightarrow> string \<Rightarrow> exn + jsval" where
  "getProp JNull p = Inl TypeError"
| "getProp (JObj fs) p = Inr (case map_of fs p of None \<Rightarrow> Undefined | Some v \<Rightarrow> Val v)"
| "getProp (JStr s) p = Inr (if p = ''link'' then StringPrototypeLink else Undefined)"
| "getProp (JBool b) p = Inr Undefined"
| "getProp (JNum n) p = Inr Undefined"
| "getProp (JArr xs) p = Inr Undefined"

definition bind :: "exn + 'a \<Rightarrow> ('a \<Rightarrow> exn + 'b) \<Rightarrow> exn + 'b" where
  "bind m f = (case m of Inl e \<Rightarrow> Inl e | Inr x \<Rightarrow> f x)"

text \<open>
  \<open>xs.slice(0, end)\<close> on an array: a negative \<open>end\<close> counts from the end of the array.
\<close>

definition slice0 :: "'a list \<Rightarrow> int \<Rightarrow> 'a list" where
  "slice0 xs e = (if e < 0 then take (nat (int (length xs) + e)) xs else take (nat e) xs)"

text \<open>
  \<open>v.slice(0, end)\<close> as the receiver of \<open>.map(...)\<close>: only an array gets through. A string
  is sliced to a string, which has no \<open>map\<close>; any other value has no \<open>slice\<close>.
\<close>

fun sliceArray :: "jsval \<Rightarrow> int \<Rightarrow> exn + jvalue list" where
  "sliceArray (Val (JArr xs)) e = Inr (slice0 xs e)"
| "sliceArray v e = Inl TypeError"

text \<open>\<open>xs.map((result, index) => ...)\<close>, where the callback may throw.\<close>

fun mapFrom :: "(jvalue \<Rightarrow> nat \<Rightarrow> exn + 'a) \<Rightarrow> nat \<Rightarrow> jvalue list \<Rightarrow> exn + 'a list" where
  "mapFrom f i [] = Inr []"
| "mapFrom f i (x # xs) =
     (case f x i of
        Inl e \<Rightarrow> Inl e
      | Inr y \<Rightarrow> (case mapFrom f (Suc i) xs of Inl e \<Rightarrow> Inl e | Inr ys \<Rightarrow> Inr (y # ys)))"

definition arrayMap :: "(jvalue \<Rightarrow> nat \<Rightarrow> exn + 'a) \<Rightarrow> jvalue list \<Rightarrow> exn + 'a list" where
  "arrayMap f xs = mapFrom f 0 xs"

subsection \<open>The result types (imported from @/lib/types)\<close>

record SearchResultItem =
  title :: jsval
  url :: jsval
  content :: jsval

record SearchImageItem =
  title :: jsval
  link :: jsval
  thumbnailUrl :: jsval

record SerperSearchResultItem =
  title :: jsval
  link :: jsval
  snippet :: jsval
  imageUrl :: jsval
  duration :: jsval
  source :: jsval
  channel :: jsval
  date :: jsval
  position :: nat

record SearchResults =
  results :: "SearchResultItem list"
  images :: "SearchImageItem list"
  videos :: "SerperSearchResultItem list"
  query :: string
  number_of_results :: nat

subsection \<open>Normalisation of the upstream items\<close>

text \<open>The callback of \<open>searchWeb\<close> (lines 141-145).\<close>

definition webItem :: "jvalue \<Rightarrow> nat \<Rightarrow> exn + SearchResultItem" where
  "webItem result index =
     bind (getProp result ''title'') (\<lambda>t.
     bind (getProp result ''link'') (\<lambda>l.
     bind (getProp result ''snippet'') (\<lambda>s.
       Inr \<lparr> SearchResultItem.title = or_else t (str ''No title''),
             url = l,
             content = or_else s (str ''No description available'') \<rparr>)))"

text \<open>The callback of \<open>searchVideos\<close> (lines 177-188).\<close>

definition videoItem :: "jvalue \<Rightarrow> nat \<Rightarrow> exn + SerperSearchResultItem" where
  "videoItem result index =
     bind (getProp result ''title'') (\<lambda>t.
     bind (getProp result ''link'') (\<lambda>l.
     bind (getProp result ''snippet'') (\<lambda>s.
     bind (getProp result ''imageUrl'') (\<lambda>i.
     bind (getProp result ''duration'') (\<lambda>d.
     bind (getProp result ''source'') (\<lambda>so.
     bind (getProp result ''channel'') (\<lambda>c.
     bind (getProp result ''date'') (\<lambda>da.
       Inr \<lparr> SerperSearchResultItem.title = coalesce t (str ''No title''),
             link = coalesce l (str ''''),
             snippet = coalesce s (str ''No description available''),
             imageUrl = coalesce i (str ''''),
             duration = coalesce d (str ''''),
             source = coalesce so (str ''''),
             channel = coalesce c (str ''''),
             date = coalesce da (str ''''),
             position = index \<rparr>))))))))"

text \<open>The callback of \<open>searchImages\<close> (lines 221-226).\<close>

definition imageItem :: "jvalue \<Rightarrow> nat \<Rightarrow> exn + SearchImageItem" where
  "imageItem result index =
     bind (getProp result ''title'') (\<lambda>t.
     bind (getProp result ''link'') (\<lambda>l.
     bind (getProp result ''thumbnailUrl'') (\<lambda>th.
     bind (getProp result ''imageUrl'') (\<lambda>im.
       Inr \<lparr> SearchImageItem.title = or_else t (str ''No title''),
             link = or_else l (str ''''),
             thumbnailUrl = or_else (or_else th im) (str '''') \<rparr>))))"

text \<open>The callback of \<open>searchNews\<close> (lines 260-264).\<close>

definition newsItem :: "jvalue \<Rightarrow> nat \<Rightarrow> exn + SearchResultItem" where
  "newsItem result index =
     bind (getProp result ''title'') (\<lambda>t.
     bind (getProp result ''link'') (\<lambda>l.
     bind (getProp result ''snippet'') (\<lambda>s.
       Inr \<lparr> SearchResultItem.title = or_else t (str ''No title''),
             url = l,
             content = or_else s (str ''No description available'') \<rparr>)))"

text \<open>
  The expressions the handlers assign: \<open>(data.organic || []).slice(0, maxResults).map(...)\<close>
  and its three siblings.
\<close>

definition webItems :: "jvalue \<Rightarrow> int \<Rightarrow> exn + SearchResultItem list" where
  "webItems data maxResults =
     bind (getProp data ''organic'') (\<lambda>organic.
     bind (sliceArray (or_else organic (Val (JArr []))) maxResults) (arrayMap webItem))"

definition videoItems :: "jvalue \<Rightarrow> int \<Rightarrow> exn + SerperSearchResultItem list" where
  "videoItems data maxResults =
     bind (getProp data ''videos'') (\<lambda>vs.
     bind (sliceArray (or_else vs (Val (JArr []))) maxResults) (arrayMap videoItem))"

definition imageItems :: "jvalue \<Rightarrow> int \<Rightarrow> exn + SearchImageItem list" where
  "imageItems data maxResults =
     bind (getProp data ''images'') (\<lambda>is.
     bind (sliceArray (or_else is (Val (JArr []))) maxResults) (arrayMap imageItem))"

definition newsItems :: "jvalue \<Rightarrow> int \<Rightarrow> exn + SearchResultItem list" where
  "newsItems data maxResults =
     bind (getProp data ''news'') (\<lambda>news.
     bind (sliceArray (or_else news (Val (JArr []))) maxResults) (arrayMap newsItem))"

subsection \<open>The network and the console\<close>

text \<open>
  \<open>fetch\<close> either rejects or resolves with a response; \<open>response.json()\<close> either rejects
  (the body is no JSON) or resolves with the parsed value. Every request settles.
\<close>

datatype body = JsonRejects string | JsonResolves jvalue

record response =
  ok :: bool
  statusText :: string
  json :: body

datatype fetch_result = FetchRejects string | FetchResolves response

text \<open>
  A request: the URL, the \<open>X-API-KEY\<close> header and the two fields of the JSON body. The
  method is always POST and the content type always application/json.
\<close>

record request =
  endpoint :: string
  x_api_key :: string
  q :: string
  num :: int

text \<open>One call of \<open>console.error\<close>: the text, and the error object when one is passed.\<close>

datatype log_entry = ConsoleError string "exn option"

subsection \<open>The four handlers\<close>

text \<open>
  A handler sends its request when it is called and does everything else in one piece
  once its response is there. \<open>searchWeb_request\<close> is the request of lines 121-131;
  \<open>searchWeb\<close> is the rest of the method, run on the result object as it is at that
  moment. It returns the result object and what it wrote to the console. Every path
  into the \<open>catch\<close> block is written out.
\<close>

definition searchWeb_request :: "string \<Rightarrow> string \<Rightarrow> int \<Rightarrow> request" where
  "searchWeb_request key qry maxResults =
     \<lparr> endpoint = ''https://google.serper.dev/search'', x_api_key = key,
       q = qry, num = maxResults \<rparr>"

definition searchWeb_catch :: "exn \<Rightarrow> SearchResults \<Rightarrow> SearchResults \<times> log_entry list" where
  "searchWeb_catch error res = (res, [ConsoleError ''Serper web search error:'' (Some error)])"

definition searchWeb ::
  "(request \<Rightarrow> fetch_result) \<Rightarrow> string \<Rightarrow> string \<Rightarrow> int \<Rightarrow> SearchResults
     \<Rightarrow> SearchResults \<times> log_entry list" where
  "searchWeb fetch key qry maxResults res =
     (case fetch (searchWeb_request key qry maxResults) of
        FetchRejects r \<Rightarrow> searchWeb_catch (Rejection r) res
      | FetchResolves response \<Rightarrow>
          if \<not> ok response then
            (let (res', lg) = searchWeb_catch (Error ''Search failed'') res
             in (res', ConsoleError (''Serper web search failed: '' @ statusText response) None # lg))
          else
            (case json response of
               JsonRejects r \<Rightarrow> searchWeb_catch (Rejection r) res
             | JsonResolves data \<Rightarrow>
                 (case webItems data maxResults of
                    Inl e \<Rightarrow> searchWeb_catch e res
                  | Inr items \<Rightarrow> (res\<lparr>results := items\<rparr>, []))))"

definition searchVideos_request :: "string \<Rightarrow> string \<Rightarrow> int \<Rightarrow> request" where
  "searchVideos_request key qry maxResults =
     \<lparr> endpoint = ''https://google.serper.dev/videos'', x_api_key = key,
       q = qry, num = maxResults \<rparr>"

definition searchVideos_catch :: "exn \<Rightarrow> SearchResults \<Rightarrow> SearchResults \<times> log_entry list" where
  "searchVideos_catch error res =
     (res\<lparr>videos := []\<rparr>, [ConsoleError ''Serper video search error:'' (Some error)])"

definition searchVideos ::
  "(request \<Rightarrow> fetch_result) \<Rightarrow> string \<Rightarrow> string \<Rightarrow> int \<Rightarrow> SearchResults
     \<Rightarrow> SearchResults \<times> log_entry list" where
  "searchVideos fetch key qry maxResults res =
     (case fetch (searchVideos_request key qry maxResults) of
        FetchRejects r \<Rightarrow> searchVideos_catch (Rejection r) res
      | FetchResolves response \<Rightarrow>
          if \<not> ok response then
            (let (res', lg) = searchVideos_catch (Error ''Search failed'') res
             in (res', ConsoleError (''Serper video search failed: '' @ statusText response) None # lg))
          else
            (case json response of
               JsonRejects r \<Rightarrow> searchVideos_catch (Rejection r) res
             | JsonResolves data \<Rightarrow>
                 (case videoItems data maxResults of
                    Inl e \<Rightarrow> searchVideos_catch e res
                  | Inr items \<Rightarrow> (res\<lparr>videos := items\<rparr>, []))))"

definition searchImages_request :: "string \<Rightarrow> string \<Rightarrow> int \<Rightarrow> request" where
  "searchImages_request key qry maxResults =
     \<lparr> endpoint = ''https://google.serper.dev/images'', x_api_key = key,
       q = qry, num = maxResults \<rparr>"

definition searchImages_catch :: "exn \<Rightarrow> SearchResults \<Rightarrow> SearchResults \<times> log_entry list" where
  "searchImages_catch error res =
     (res\<lparr>images := []\<rparr>, [ConsoleError ''Serper image search error:'' (Some error)])"

definition searchImages ::
  "(request \<Rightarrow> fetch_result) \<Rightarrow> string \<Rightarrow> string \<Rightarrow> int \<Rightarrow> SearchResults
     \<Rightarrow> SearchResults \<times> log_entry list" where
  "searchImages fetch key qry maxResults res =
     (case fetch (searchImages_request key qry maxResults) of
        FetchRejects r \<Rightarrow> searchImages_catch (Rejection r) res
      | FetchResolves response \<Rightarrow>
          if \<not> ok response then
            (let (res', lg) = searchImages_catch (Error ''Search failed'') res
             in (res', ConsoleError (''Serper image search failed: '' @ statusText response) None # lg))
          else
            (case json response of
               JsonRejects r \<Rightarrow> searchImages_catch (Rejection r) res
             | JsonResolves data \<Rightarrow>
                 (case imageItems data maxResults of
                    Inl e \<Rightarrow> searchImages_catch e res
                  | Inr items \<Rightarrow> (res\<lparr>images := items\<rparr>, []))))"

text \<open>
  \<open>searchNews\<close> differs twice: a response that is not ok makes it return at once, and
  its items are appended to what \<open>results.results\<close> holds when it resumes.
\<close>

definition searchNews_request :: "string \<Rightarrow> string \<Rightarrow> int \<Rightarrow> request" where
  "searchNews_request key qry maxResults =
     \<lparr> endpoint = ''https://google.serper.dev/news'', x_api_key = key,
       q = qry, num = maxResults \<rparr>"

definition searchNews_catch :: "exn \<Rightarrow> SearchResults \<Rightarrow> SearchResults \<times> log_entry list" where
  "searchNews_catch error res = (res, [ConsoleError ''Serper news search error:'' (Some error)])"

definition searchNews ::
  "(request \<Rightarrow> fetch_result) \<Rightarrow> string \<Rightarrow> string \<Rightarrow> int \<Rightarrow> SearchResults
     \<Rightarrow> SearchResults \<times> log_entry list" where
  "searchNews fetch key qry maxResults res =
     (case fetch (searchNews_request key qry maxResults) of
        FetchRejects r \<Rightarrow> searchNews_catch (Rejection r) res
      | FetchResolves response \<Rightarrow>
          if \<not> ok response then
            (res, [ConsoleError (''Serper news search failed: '' @ statusText response) None])
          else
            (case json response of
               JsonRejects r \<Rightarrow> searchNews_catch (Rejection r) res
             | JsonResolves data \<Rightarrow>
                 (case newsItems data maxResults of
                    Inl e \<Rightarrow> searchNews_catch e res
                  | Inr newsResults \<Rightarrow> (res\<lparr>results := results res @ newsResults\<rparr>, []))))"

subsection \<open>search\<close>

datatype content_type = Web | Video | Image | News

datatype search_depth = Basic | Advanced

datatype search_type = General | Optimized

record search_options =
  type :: "search_type option"
  content_types :: "content_type list option"

record SerperSearchProvider =
  apiKey :: "string option"

text \<open>The constructor reads the key from the process environment.\<close>

definition constructor :: "(string \<Rightarrow> string option) \<Rightarrow> SerperSearchProvider" where
  "constructor env = \<lparr> apiKey = env ''SERPER_API_KEY'' \<rparr>"

text \<open>\<open>xs.join(sep)\<close> on an array of strings.\<close>

fun join :: "string \<Rightarrow> string list \<Rightarrow> string" where
  "join sep [] = []"
| "join sep [x] = x"
| "join sep (x # y # ys) = x @ sep @ join sep (y # ys)"

text \<open>Lines 74-86: the domain filters, written into the query. \<open>None\<close> is an omitted argument.\<close>

definition includeFilter :: "string \<Rightarrow> string list option \<Rightarrow> string" where
  "includeFilter qry includeDomains =
     (case includeDomains of
        None \<Rightarrow> qry
      | Some ds \<Rightarrow>
          if length ds > 0
          then qry @ '' ('' @ join '' OR '' (map (\<lambda>domain. ''site:'' @ domain) ds) @ '')''
          else qry)"

definition excludeFilter :: "string \<Rightarrow> string list option \<Rightarrow> string" where
  "excludeFilter searchQuery excludeDomains =
     (case excludeDomains of
        None \<Rightarrow> searchQuery
      | Some ds \<Rightarrow>
          if length ds > 0
          then searchQuery @ '' '' @ join '' '' (map (\<lambda>domain. ''-site:'' @ domain) ds)
          else searchQuery)"

definition buildSearchQuery :: "string \<Rightarrow> string list option \<Rightarrow> string list option \<Rightarrow> string" where
  "buildSearchQuery qry includeDomains excludeDomains =
     excludeFilter (includeFilter qry includeDomains) excludeDomains"

text \<open>Line 64: \<open>options?.content_types || ['web']\<close>. An array is truthy, also the empty one.\<close>

definition contentTypesOf :: "search_options option \<Rightarrow> content_type list" where
  "contentTypesOf options =
     (case options of
        None \<Rightarrow> [Web]
      | Some opts \<Rightarrow> (case content_types opts of None \<Rightarrow> [Web] | Some cts \<Rightarrow> cts))"

text \<open>Lines 89-105: the handlers that are started, in the order they are started.\<close>

definition started :: "content_type list \<Rightarrow> content_type list" where
  "started contentTypes = filter (\<lambda>c. c \<in> set contentTypes) [Web, Video, Image, News]"

fun request_of :: "content_type \<Rightarrow> string \<Rightarrow> string \<Rightarrow> int \<Rightarrow> request" where
  "request_of Web = searchWeb_request"
| "request_of Video = searchVideos_request"
| "request_of Image = searchImages_request"
| "request_of News = searchNews_request"

fun handler ::
  "content_type \<Rightarrow> (request \<Rightarrow> fetch_result) \<Rightarrow> string \<Rightarrow> string \<Rightarrow> int \<Rightarrow> SearchResults
     \<Rightarrow> SearchResults \<times> log_entry list" where
  "handler Web = searchWeb"
| "handler Video = searchVideos"
| "handler Image = searchImages"
| "handler News = searchNews"

text \<open>
  \<open>await Promise.all(promises)\<close>: the pending handlers resume one after the other, each on
  the result object the ones before it left.
\<close>

fun resume ::
  "(request \<Rightarrow> fetch_result) \<Rightarrow> string \<Rightarrow> string \<Rightarrow> int \<Rightarrow> content_type list
     \<Rightarrow> SearchResults \<times> log_entry list \<Rightarrow> SearchResults \<times> log_entry list" where
  "resume fetch key qry maxResults [] st = st"
| "resume fetch key qry maxResults (c # cs) (res, lg) =
     (let (res', lg') = handler c fetch key qry maxResults res
      in resume fetch key qry maxResults cs (res', lg @ lg'))"

text \<open>Line 51: \<open>maxResults: number = 10\<close>. \<open>None\<close> is an omitted argument.\<close>

definition maxResultsOf :: "int option \<Rightarrow> int" where
  "maxResultsOf maxResultsArg = (case maxResultsArg of None \<Rightarrow> 10 | Some n \<Rightarrow> n)"

text \<open>
  What a call of \<open>search\<close> leaves behind: what the promise settles with (\<open>Inl\<close> the error
  thrown), the requests sent, in order, and the console output.
\<close>

record run =
  outcome :: "exn + SearchResults"
  requests :: "request list"
  console :: "log_entry list"

text \<open>
  \<open>search\<close> on a provider \<open>this\<close>. \<open>fetch\<close> is the network. \<open>completion c\<close> is the time at
  which the response of handler \<open>c\<close> is there: the handlers resume in the order of these
  times, and in the order they were started when the times are equal.
\<close>

definition search ::
  "SerperSearchProvider \<Rightarrow> (request \<Rightarrow> fetch_result) \<Rightarrow> (content_type \<Rightarrow> nat)
     \<Rightarrow> string \<Rightarrow> int option \<Rightarrow> search_depth option \<Rightarrow> string list option
     \<Rightarrow> string list option \<Rightarrow> search_options option \<Rightarrow> run" where
  "search this fetch completion qry maxResultsArg searchDepth includeDomains excludeDomains options =
     (case apiKey this of
        None \<Rightarrow> \<lparr> outcome = Inl (Error ''Serper API key not configured''), requests = [], console = [] \<rparr>
      | Some key \<Rightarrow>
          if key = [] then
            \<lparr> outcome = Inl (Error ''Serper API key not configured''), requests = [], console = [] \<rparr>
          else
            (let maxResults = maxResultsOf maxResultsArg;
                 contentTypes = contentTypesOf options;
                 res0 = \<lparr> results = [], images = [], videos = [], query = qry,
                          number_of_results = 0 \<rparr>;
                 searchQuery = buildSearchQuery qry includeDomains excludeDomains;
                 promises = started contentTypes;
                 (res, lg) = resume fetch key searchQuery maxResults
                               (sort_key completion promises) (res0, [])
             in \<lparr> outcome = Inr (res\<lparr>number_of_results := length (results res)\<rparr>),
                  requests = map (\<lambda>c. request_of c key searchQuery maxResults) promises,
                  console = lg \<rparr>))"

section \<open>Notions used to state the properties\<close>

text \<open>
  A category fails when its request is rejected, is answered with a status that is not
  ok, is answered with a body that is no JSON, or is answered with JSON on which the
  normalisation throws.
\<close>

fun throws :: "content_type \<Rightarrow> jvalue \<Rightarrow> int \<Rightarrow> bool" where
  "throws Web data maxResults = isl (webItems data maxResults)"
| "throws Video data maxResults = isl (videoItems data maxResults)"
| "throws Image data maxResults = isl (imageItems data maxResults)"
| "throws News data maxResults = isl (newsItems data maxResults)"

definition failed :: "content_type \<Rightarrow> fetch_result \<Rightarrow> int \<Rightarrow> bool" where
  "failed c fr maxResults =
     (case fr of
        FetchRejects r \<Rightarrow> True
      | FetchResolves response \<Rightarrow>
          \<not> ok response \<or>
          (case json response of
             JsonRejects r \<Rightarrow> True
           | JsonResolves data \<Rightarrow> throws c data maxResults))"

text \<open>A category is logged when a console line starts with the name of its search.\<close>

fun label :: "content_type \<Rightarrow> string" where
  "label Web = ''Serper web search''"
| "label Video = ''Serper video search''"
| "label Image = ''Serper image search''"
| "label News = ''Serper news search''"

definition logged :: "content_type \<Rightarrow> log_entry list \<Rightarrow> bool" where
  "logged c lg = (\<exists>e \<in> set lg. case e of ConsoleError msg err \<Rightarrow> prefix (label c) msg)"

text \<open>The same options, with one category no longer asked for.\<close>

definition without :: "content_type \<Rightarrow> search_options option \<Rightarrow> search_options option" where
  "without c options =
     Some \<lparr> type = (case options of None \<Rightarrow> None | Some opts \<Rightarrow> type opts),
            content_types = Some (removeAll c (contentTypesOf options)) \<rparr>"

text \<open>The list a category owns alone is still empty (web and news share theirs).\<close>

fun untouched :: "content_type \<Rightarrow> SearchResults \<Rightarrow> bool" where
  "untouched Video res = (videos res = [])"
| "untouched Image res = (images res = [])"
| "untouched Web res = True"
| "untouched News res = True"

subsection \<open>Concrete inputs\<close>

text \<open>
  A backend with two organic web items, one news item, one image without a thumbnail
  and a video endpoint that answers 403.
\<close>

definition exampleBackend :: "request \<Rightarrow> fetch_result" where
  "exampleBackend rq =
     (if endpoint rq = ''https://google.serper.dev/search'' then
        FetchResolves \<lparr> ok = True, statusText = ''OK'',
          json = JsonResolves (JObj [(''organic'',
            JArr [JObj [(''title'', JStr ''w1''), (''link'', JStr ''https://w1''), (''snippet'', JStr ''one'')],
                  JObj [(''title'', JStr ''w2''), (''link'', JStr ''https://w2''), (''snippet'', JStr ''two'')]])]) \<rparr>
      else if endpoint rq = ''https://google.serper.dev/news'' then
        FetchResolves \<lparr> ok = True, statusText = ''OK'',
          json = JsonResolves (JObj [(''news'',
            JArr [JObj [(''title'', JStr ''n1''), (''link'', JStr ''https://n1''), (''snippet'', JStr ''three'')]])]) \<rparr>
      else if endpoint rq = ''https://google.serper.dev/videos'' then
        FetchResolves \<lparr> ok = False, statusText = ''Forbidden'', json = JsonRejects ''Unexpected token'' \<rparr>
      else
        FetchResolves \<lparr> ok = True, statusText = ''OK'',
          json = JsonResolves (JObj [(''images'',
            JArr [JObj [(''title'', JStr ''i1''), (''imageUrl'', JStr ''https://i1'')]])]) \<rparr>)"

text \<open>A payload with more items than asked for, and upstream positions of its own.\<close>

definition examplePayload :: jvalue where
  "examplePayload = JObj
     [(''organic'', JArr [JObj [(''title'', JStr ''a'')], JObj [(''title'', JStr ''b'')], JNull]),
      (''videos'', JArr [JObj [(''title'', JStr ''a''), (''position'', JNum 7)],
                         JObj [(''title'', JStr ''b''), (''position'', JNum 9)],
                         JObj [(''title'', JStr ''c''), (''position'', JNum 11)]]),
      (''images'', JArr [JObj [(''imageUrl'', JStr ''https://i1'')], JObj [], JObj []]),
      (''news'', JArr [JObj [(''title'', JStr '''')], JObj [(''link'', JStr ''https://n2'')]])]"

definition configuredProvider :: SerperSearchProvider where
  "configuredProvider = constructor [''SERPER_API_KEY'' \<mapsto> ''k'']"

definition webVideoNews :: "search_options option" where
  "webVideoNews = Some \<lparr> type = None, content_types = Some [Web, Video, News] \<rparr>"

definition allFour :: "search_options option" where
  "allFour = Some \<lparr> type = None, content_types = Some [News, Image, Video, Web] \<rparr>"

definition webAndNews :: "search_options option" where
  "webAndNews = Some \<lparr> type = None, content_types = Some [Web, News] \<rparr>"

text \<open>The news response is there before the web response.\<close>

definition newsFirst :: "content_type \<Rightarrow> nat" where
  "newsFirst c = (if c = News then 0 else 1)"

section \<open>Properties\<close>

subsection \<open>Auxiliary facts\<close>

lemmas handler_defs =
  searchWeb_def searchWeb_catch_def searchVideos_def searchVideos_catch_def
  searchImages_def searchImages_catch_def searchNews_def searchNews_catch_def

lemmas handler_splits = fetch_result.splits body.splits sum.splits

lemmas eval_defs =
  maxResultsOf_def contentTypesOf_def started_def buildSearchQuery_def
  includeFilter_def excludeFilter_def handler_defs
  searchWeb_request_def searchVideos_request_def searchImages_request_def searchNews_request_def
  webItems_def videoItems_def imageItems_def newsItems_def
  webItem_def videoItem_def imageItem_def newsItem_def
  bind_def or_else_def coalesce_def str_def arrayMap_def slice0_def Let_def

lemma configuredProvider_key: "apiKey configuredProvider = Some ''k''"
  by (simp add: configuredProvider_def constructor_def)

text \<open>With a key, \<open>search\<close> is the fan-out followed by the count.\<close>

lemma search_configured:
  assumes "apiKey this = Some key" and "key \<noteq> []"
  shows "search this fetch completion qry maxResultsArg searchDepth includeDomains excludeDomains options =
    (let maxResults = maxResultsOf maxResultsArg;
         searchQuery = buildSearchQuery qry includeDomains excludeDomains;
         promises = started (contentTypesOf options);
         st = resume fetch key searchQuery maxResults (sort_key completion promises)
                (\<lparr> results = [], images = [], videos = [], query = qry, number_of_results = 0 \<rparr>, [])
     in \<lparr> outcome = Inr ((fst st)\<lparr>number_of_results := length (results (fst st))\<rparr>),
          requests = map (\<lambda>c. request_of c key searchQuery maxResults) promises,
          console = snd st \<rparr>)"
  using assms by (simp add: search_def Let_def split: prod.splits)

lemma started_Nil: "started [] = []"
  by (simp add: started_def)

subsection \<open>The missing key\<close>

text \<open>
  Claim C1. Whatever the arguments, the backend and the timing are: when the API key is
  not configured (absent from the environment, or the empty string), \<open>search\<close> fails with
  the error ``Serper API key not configured'', and it has sent no request and written
  nothing to the console.
\<close>

theorem search_without_key_throws_before_any_request:
  assumes "apiKey this = None \<or> apiKey this = Some []"
  shows "search this fetch completion qry maxResultsArg searchDepth includeDomains excludeDomains options
         = \<lparr> outcome = Inl (Error ''Serper API key not configured''), requests = [], console = [] \<rparr>"
  using assms by (auto simp: search_def)

theorem search_without_key_throws_before_any_request_witness:
  "apiKey (constructor Map.empty) = None
   \<and> search (constructor Map.empty) exampleBackend (\<lambda>c. 0) ''cats'' None None None None None
       = \<lparr> outcome = Inl (Error ''Serper API key not configured''), requests = [], console = [] \<rparr>"
proof -
  have h: "apiKey (constructor Map.empty) = None"
    by (simp add: constructor_def)
  then have "apiKey (constructor Map.empty) = None \<or> apiKey (constructor Map.empty) = Some []" ..
  from h search_without_key_throws_before_any_request [OF this] show ?thesis by simp
qed

subsection \<open>The count\<close>

text \<open>
  Claim C6. Whenever \<open>search\<close> returns a result, whatever each category did,
  \<open>number_of_results\<close> is exactly the length of \<open>results\<close>; images and videos are not
  counted.
\<close>

theorem number_of_results_is_length_of_results:
  assumes "outcome (search this fetch completion qry maxResultsArg searchDepth
                      includeDomains excludeDomains options) = Inr r"
  shows "number_of_results r = length (results r)"
  using assms by (auto simp: search_def Let_def split: option.splits if_splits prod.splits)

theorem number_of_results_is_length_of_results_witness:
  "\<exists>r. outcome (search configuredProvider exampleBackend (\<lambda>c. 0) ''cats'' None None None None allFour)
          = Inr r
     \<and> number_of_results r = length (results r)
     \<and> length (results r) = 3 \<and> length (images r) = 1 \<and> videos r = []"
proof -
  have k: "apiKey configuredProvider = Some ''k''" by (rule configuredProvider_key)
  have ne: "''k'' \<noteq> []" by simp
  obtain r where r: "outcome (search configuredProvider exampleBackend (\<lambda>c. 0) ''cats'' None None None
                        None allFour) = Inr r"
    by (simp add: search_configured [OF k ne] Let_def)
  then have "length (results r) = 3 \<and> length (images r) = 1 \<and> videos r = []"
    by (auto simp: search_configured [OF k ne] allFour_def exampleBackend_def eval_defs)
  with r number_of_results_is_length_of_results [OF r] show ?thesis by blast
qed

subsection \<open>The empty set of content types\<close>

text \<open>
  Claim C9. With a key configured: when \<open>options.content_types\<close> is given and empty,
  \<open>search\<close> sends no request and returns empty \<open>results\<close>, \<open>images\<close> and \<open>videos\<close>, the
  original query and the count 0. The default \<open>[web]\<close> stands in only when
  \<open>content_types\<close> (or \<open>options\<close>) is not given; a list that is given is used as it is.
\<close>

theorem empty_content_types_sends_nothing:
  assumes "apiKey this = Some key" and "key \<noteq> []"
  shows "search this fetch completion qry maxResultsArg searchDepth includeDomains excludeDomains
           (Some \<lparr> type = ty, content_types = Some [] \<rparr>)
         = \<lparr> outcome = Inr \<lparr> results = [], images = [], videos = [], query = qry,
                             number_of_results = 0 \<rparr>,
             requests = [], console = [] \<rparr>
       \<and> contentTypesOf None = [Web]
       \<and> contentTypesOf (Some \<lparr> type = ty, content_types = None \<rparr>) = [Web]
       \<and> contentTypesOf (Some \<lparr> type = ty, content_types = Some cts \<rparr>) = cts
       \<and> requests (search this fetch completion qry maxResultsArg searchDepth includeDomains
                      excludeDomains None)
           = [searchWeb_request key (buildSearchQuery qry includeDomains excludeDomains)
                (maxResultsOf maxResultsArg)]"
  using assms by (simp add: search_def contentTypesOf_def started_def Let_def split: prod.splits)

theorem empty_content_types_sends_nothing_witness:
  "apiKey configuredProvider = Some ''k'' \<and> ''k'' \<noteq> []
   \<and> search configuredProvider exampleBackend (\<lambda>c. 0) ''cats'' None None None None
        (Some \<lparr> type = None, content_types = Some [] \<rparr>)
      = \<lparr> outcome = Inr \<lparr> results = [], images = [], videos = [], query = ''cats'',
                          number_of_results = 0 \<rparr>,
          requests = [], console = [] \<rparr>
   \<and> requests (search configuredProvider exampleBackend (\<lambda>c. 0) ''cats'' None None None None None)
      = [\<lparr> endpoint = ''https://google.serper.dev/search'', x_api_key = ''k'', q = ''cats'',
           num = 10 \<rparr>]"
proof -
  have k: "apiKey configuredProvider = Some ''k''" by (rule configuredProvider_key)
  have ne: "''k'' \<noteq> []" by simp
  from empty_content_types_sends_nothing [OF k ne, of exampleBackend "\<lambda>c. 0" "''cats''" None None
      None None None]
  show ?thesis using k
    by (simp add: searchWeb_request_def buildSearchQuery_def includeFilter_def excludeFilter_def
        maxResultsOf_def)
qed

subsection \<open>Normalisation\<close>

lemma bind_Inr_iff: "bind m f = Inr y \<longleftrightarrow> (\<exists>x. m = Inr x \<and> f x = Inr y)"
  by (cases m) (simp_all add: bind_def)

lemma length_slice0: "0 \<le> e \<Longrightarrow> int (length (slice0 xs e)) \<le> e"
  by (simp add: slice0_def)

lemma sliceArray_Inr: "sliceArray v e = Inr xs \<Longrightarrow> \<exists>ys. v = Val (JArr ys) \<and> xs = slice0 ys e"
  by (cases "(v, e)" rule: sliceArray.cases) auto

lemma mapFrom_length: "mapFrom f i xs = Inr ys \<Longrightarrow> length ys = length xs"
  by (induction xs arbitrary: i ys) (auto split: sum.splits)

text \<open>The \<open>k\<close>-th output of \<open>map\<close> is the callback on the \<open>k\<close>-th input and its index.\<close>

lemma mapFrom_nth:
  "mapFrom f i xs = Inr ys \<Longrightarrow> k < length xs \<Longrightarrow> f (xs ! k) (i + k) = Inr (ys ! k)"
proof (induction xs arbitrary: i ys k)
  case Nil
  then show ?case by simp
next
  case (Cons x xs)
  from Cons.prems(1) obtain y ys' where
    y: "f x i = Inr y" and ys': "mapFrom f (Suc i) xs = Inr ys'" and ys: "ys = y # ys'"
    by (auto split: sum.splits)
  show ?case
  proof (cases k)
    case 0
    with y ys show ?thesis by simp
  next
    case (Suc j)
    with Cons.prems(2) have "j < length xs" by simp
    from Cons.IH [OF ys' this] Suc ys show ?thesis by simp
  qed
qed

lemma items_length:
  assumes "bind (getProp data p) (\<lambda>v. bind (sliceArray (or_else v (Val (JArr []))) e) (arrayMap f)) = Inr ys"
    and "0 \<le> e"
  shows "int (length ys) \<le> e"
proof -
  from assms(1) obtain v xs where "sliceArray (or_else v (Val (JArr []))) e = Inr xs"
    and m: "arrayMap f xs = Inr ys"
    by (auto simp: bind_Inr_iff)
  then obtain zs where "xs = slice0 zs e" by (auto dest: sliceArray_Inr)
  with length_slice0 [OF assms(2)] have "int (length xs) \<le> e" by simp
  moreover from m have "length ys = length xs" by (simp add: arrayMap_def mapFrom_length)
  ultimately show ?thesis by simp
qed

lemma videoItem_position: "videoItem x i = Inr v \<Longrightarrow> position v = i"
  by (auto simp: videoItem_def bind_Inr_iff)

text \<open>
  Claim C5. For a result cap that is not negative (the request type asks for at least
  1): whenever the normalisation of a category's payload succeeds, be it web, video,
  image or news, it yields at most \<open>maxResults\<close> items, however many the payload holds.
\<close>

theorem item_count_at_most_maxResults:
  assumes "0 \<le> maxResults"
  shows "(webItems data maxResults = Inr ws \<longrightarrow> int (length ws) \<le> maxResults)
       \<and> (videoItems data maxResults = Inr vs \<longrightarrow> int (length vs) \<le> maxResults)
       \<and> (imageItems data maxResults = Inr is \<longrightarrow> int (length is) \<le> maxResults)
       \<and> (newsItems data maxResults = Inr ns \<longrightarrow> int (length ns) \<le> maxResults)"
proof (intro conjI impI)
  assume "webItems data maxResults = Inr ws"
  then show "int (length ws) \<le> maxResults"
    unfolding webItems_def by (rule items_length) (rule assms)
next
  assume "videoItems data maxResults = Inr vs"
  then show "int (length vs) \<le> maxResults"
    unfolding videoItems_def by (rule items_length) (rule assms)
next
  assume "imageItems data maxResults = Inr is"
  then show "int (length is) \<le> maxResults"
    unfolding imageItems_def by (rule items_length) (rule assms)
next
  assume "newsItems data maxResults = Inr ns"
  then show "int (length ns) \<le> maxResults"
    unfolding newsItems_def by (rule items_length) (rule assms)
qed

theorem item_count_at_most_maxResults_witness:
  "(0::int) \<le> 2
   \<and> (\<exists>ws vs is ns.
        webItems examplePayload 2 = Inr ws \<and> videoItems examplePayload 2 = Inr vs
        \<and> imageItems examplePayload 2 = Inr is \<and> newsItems examplePayload 2 = Inr ns
        \<and> int (length ws) \<le> 2 \<and> int (length vs) \<le> 2
        \<and> int (length is) \<le> 2 \<and> int (length ns) \<le> 2)"
proof -
  have z: "(0::int) \<le> 2" by simp
  obtain ws where ws: "webItems examplePayload 2 = Inr ws"
    by (simp add: examplePayload_def eval_defs)
  obtain vs where vs: "videoItems examplePayload 2 = Inr vs"
    by (simp add: examplePayload_def eval_defs)
  obtain "is" where "is": "imageItems examplePayload 2 = Inr is"
    by (simp add: examplePayload_def eval_defs)
  obtain ns where ns: "newsItems examplePayload 2 = Inr ns"
    by (simp add: examplePayload_def eval_defs)
  from item_count_at_most_maxResults [OF z, of examplePayload ws vs "is" ns] ws vs "is" ns z
  show ?thesis by blast
qed

text \<open>
  Claim C8. Whenever the video payload is normalised, the \<open>position\<close> of the \<open>i\<close>-th
  video item is \<open>i\<close>, counted from 0, whatever \<open>position\<close> the payload gives the item.
\<close>

theorem video_position_is_index:
  assumes "videoItems data maxResults = Inr items" and "i < length items"
  shows "position (items ! i) = i"
proof -
  from assms(1) obtain xs where m: "mapFrom videoItem 0 xs = Inr items"
    by (auto simp: videoItems_def bind_Inr_iff arrayMap_def)
  with assms(2) have "i < length xs" by (simp add: mapFrom_length)
  from mapFrom_nth [OF m this] have "videoItem (xs ! i) i = Inr (items ! i)" by simp
  then show ?thesis by (rule videoItem_position)
qed

theorem video_position_is_index_witness:
  "\<exists>items. videoItems examplePayload 5 = Inr items \<and> 2 < length items
     \<and> position (items ! 2) = 2
     \<and> getProp (JObj [(''title'', JStr ''c''), (''position'', JNum 11)]) ''position''
         = Inr (Val (JNum 11))"
proof -
  obtain items where v: "videoItems examplePayload 5 = Inr items" and l: "2 < length items"
    by (simp add: examplePayload_def eval_defs)
  from video_position_is_index [OF v l] v l show ?thesis by simp
qed

text \<open>
  Claim C7. For every upstream image item (an object) that has no \<open>thumbnailUrl\<close> and
  whose \<open>imageUrl\<close> is a string, the normalised item's \<open>thumbnailUrl\<close> is that string.
\<close>

theorem image_thumbnail_falls_back_to_imageUrl:
  assumes "map_of fs ''thumbnailUrl'' = None" and "map_of fs ''imageUrl'' = Some (JStr u)"
  shows "\<exists>it. imageItem (JObj fs) i = Inr it \<and> thumbnailUrl it = Val (JStr u)"
  using assms by (simp add: imageItem_def bind_def or_else_def str_def)

theorem image_thumbnail_falls_back_to_imageUrl_witness:
  "map_of [(''title'', JStr ''i1''), (''imageUrl'', JStr ''https://i1'')] ''thumbnailUrl'' = None
   \<and> map_of [(''title'', JStr ''i1''), (''imageUrl'', JStr ''https://i1'')] ''imageUrl''
       = Some (JStr ''https://i1'')
   \<and> (\<exists>it. imageItem (JObj [(''title'', JStr ''i1''), (''imageUrl'', JStr ''https://i1'')]) 0 = Inr it
          \<and> thumbnailUrl it = Val (JStr ''https://i1''))"
proof -
  have a: "map_of [(''title'', JStr ''i1''), (''imageUrl'', JStr ''https://i1'')] ''thumbnailUrl'' = None"
    by simp
  have b: "map_of [(''title'', JStr ''i1''), (''imageUrl'', JStr ''https://i1'')] ''imageUrl''
       = Some (JStr ''https://i1'')"
    by simp
  from image_thumbnail_falls_back_to_imageUrl [OF a b, of 0] a b show ?thesis by blast
qed

text \<open>
  Claim C10. For every upstream web or news item (an object), the normalised \<open>url\<close> is
  what the item holds under \<open>link\<close>, with no default: it is \<open>undefined\<close> when \<open>link\<close> is
  absent. The \<open>title\<close> and the \<open>content\<close> get their defaults, ``No title'' and
  ``No description available'', when the upstream field is absent and also when it is
  the empty string. The web and the news callbacks agree.
\<close>

theorem web_news_url_verbatim_title_content_defaulted:
  "\<exists>w. webItem (JObj fs) i = Inr w \<and> newsItem (JObj fs) i = Inr w
     \<and> url w = (case map_of fs ''link'' of None \<Rightarrow> Undefined | Some v \<Rightarrow> Val v)
     \<and> (map_of fs ''link'' = None \<longrightarrow> url w = Undefined)
     \<and> (map_of fs ''title'' = None \<or> map_of fs ''title'' = Some (JStr []) \<longrightarrow>
          SearchResultItem.title w = Val (JStr ''No title''))
     \<and> (map_of fs ''snippet'' = None \<or> map_of fs ''snippet'' = Some (JStr []) \<longrightarrow>
          content w = Val (JStr ''No description available''))"
  by (auto simp: webItem_def newsItem_def bind_def or_else_def str_def)

theorem web_news_url_verbatim_title_content_defaulted_witness:
  "map_of [(''title'', JStr [])] ''link'' = None
   \<and> map_of [(''title'', JStr [])] ''title'' = Some (JStr [])
   \<and> map_of [(''title'', JStr [])] ''snippet'' = None
   \<and> (\<exists>w. webItem (JObj [(''title'', JStr [])]) 0 = Inr w
          \<and> newsItem (JObj [(''title'', JStr [])]) 0 = Inr w
          \<and> url w = Undefined
          \<and> SearchResultItem.title w = Val (JStr ''No title'')
          \<and> content w = Val (JStr ''No description available''))"
proof -
  have a: "map_of [(''title'', JStr [])] ''link'' = None" by simp
  have b: "map_of [(''title'', JStr [])] ''title'' = Some (JStr [])" by simp
  have c: "map_of [(''title'', JStr [])] ''snippet'' = None" by simp
  from web_news_url_verbatim_title_content_defaulted [of "[(''title'', JStr [])]" 0] a b c
  show ?thesis by blast
qed

subsection \<open>The domain filters\<close>

lemma excludeFilter_extends: "\<exists>ss. excludeFilter s excludeDomains = s @ ss"
  by (auto simp: excludeFilter_def split: option.splits)

lemma include_in_query:
  "sublist (''(site:'' @ a @ '' OR site:'' @ b @ '')'')
     (buildSearchQuery qry (Some [a, b]) excludeDomains)"
proof -
  obtain ss where "buildSearchQuery qry (Some [a, b]) excludeDomains
      = (qry @ '' '') @ (''(site:'' @ a @ '' OR site:'' @ b @ '')'') @ ss"
    using excludeFilter_extends [of "includeFilter qry (Some [a, b])" excludeDomains]
    by (auto simp: buildSearchQuery_def includeFilter_def)
  then show ?thesis by (simp only: sublist_appendI)
qed

lemma exclude_in_query:
  "sublist (''-site:'' @ c) (buildSearchQuery qry includeDomains (Some [c]))"
proof -
  have "buildSearchQuery qry includeDomains (Some [c])
      = (includeFilter qry includeDomains @ '' '') @ (''-site:'' @ c) @ []"
    by (simp add: buildSearchQuery_def excludeFilter_def)
  then show ?thesis by (simp only: sublist_appendI)
qed

lemma include_then_exclude:
  "buildSearchQuery qry (Some [a, b]) (Some [c])
   = qry @ '' (site:'' @ a @ '' OR site:'' @ b @ '') -site:'' @ c"
  by (simp add: buildSearchQuery_def excludeFilter_def includeFilter_def)

lemma q_request_of: "q (request_of c key searchQuery maxResults) = searchQuery"
  by (cases c) (simp_all add: searchWeb_request_def searchVideos_request_def
      searchImages_request_def searchNews_request_def)

lemma handler_query: "query (fst (handler c fetch key s m res)) = query res"
  by (cases c) (simp_all add: handler_defs split: handler_splits)

lemma resume_query: "query (fst (resume fetch key s m cs (res, lg))) = query res"
proof (induction cs arbitrary: res lg)
  case Nil
  then show ?case by simp
next
  case (Cons c cs)
  obtain res' lg' where h: "handler c fetch key s m res = (res', lg')"
    by (cases "handler c fetch key s m res")
  with handler_query [of c fetch key s m res] have "query res' = query res" by simp
  with Cons.IH [of res' "lg @ lg'"] h show ?case by simp
qed

text \<open>
  Claim C4. With \<open>includeDomains = [a, b]\<close> the rewritten query contains
  \<open>(site:a OR site:b)\<close>, the domains in the order given; with \<open>excludeDomains = [c]\<close> it
  contains \<open>-site:c\<close>; with both, the include filter is written first and the exclude
  filter after it, onto the same string. With a key configured, every request sent
  carries the rewritten query, and the \<open>query\<close> of the result returned is the caller's
  query as it was given.
\<close>

theorem domain_filters_rewrite_the_request_not_the_result:
  assumes "apiKey this = Some key" and "key \<noteq> []"
  shows "sublist (''(site:'' @ a @ '' OR site:'' @ b @ '')'')
           (buildSearchQuery qry (Some [a, b]) excludeDomains)
       \<and> sublist (''-site:'' @ c) (buildSearchQuery qry includeDomains (Some [c]))
       \<and> buildSearchQuery qry (Some [a, b]) (Some [c])
           = qry @ '' (site:'' @ a @ '' OR site:'' @ b @ '') -site:'' @ c
       \<and> (\<forall>rq \<in> set (requests (search this fetch completion qry maxResultsArg searchDepth
                                   includeDomains excludeDomains options)).
             q rq = buildSearchQuery qry includeDomains excludeDomains)
       \<and> (\<exists>r. outcome (search this fetch completion qry maxResultsArg searchDepth
                          includeDomains excludeDomains options) = Inr r
              \<and> query r = qry)"
proof (intro conjI)
  show "\<forall>rq \<in> set (requests (search this fetch completion qry maxResultsArg searchDepth
                                   includeDomains excludeDomains options)).
             q rq = buildSearchQuery qry includeDomains excludeDomains"
    by (auto simp: search_configured [OF assms] Let_def q_request_of)
  show "\<exists>r. outcome (search this fetch completion qry maxResultsArg searchDepth
                          includeDomains excludeDomains options) = Inr r
              \<and> query r = qry"
    by (simp add: search_configured [OF assms] Let_def resume_query)
qed (rule include_in_query exclude_in_query include_then_exclude)+

theorem domain_filters_rewrite_the_request_not_the_result_witness:
  "apiKey configuredProvider = Some ''k'' \<and> ''k'' \<noteq> []
   \<and> map q (requests (search configuredProvider exampleBackend (\<lambda>c. 0) ''cats'' None None
        (Some [''a.org'', ''b.org'']) (Some [''c.org'']) webVideoNews))
      = [''cats (site:a.org OR site:b.org) -site:c.org'',
         ''cats (site:a.org OR site:b.org) -site:c.org'',
         ''cats (site:a.org OR site:b.org) -site:c.org'']
   \<and> sublist ''(site:a.org OR site:b.org)'' ''cats (site:a.org OR site:b.org) -site:c.org''
   \<and> sublist ''-site:c.org'' ''cats (site:a.org OR site:b.org) -site:c.org''
   \<and> (\<exists>r. outcome (search configuredProvider exampleBackend (\<lambda>c. 0) ''cats'' None None
        (Some [''a.org'', ''b.org'']) (Some [''c.org'']) webVideoNews) = Inr r \<and> query r = ''cats'')"
proof -
  have k: "apiKey configuredProvider = Some ''k''" by (rule configuredProvider_key)
  have ne: "''k'' \<noteq> []" by simp
  have n: "map q (requests (search configuredProvider exampleBackend (\<lambda>c. 0) ''cats'' None None
        (Some [''a.org'', ''b.org'']) (Some [''c.org'']) webVideoNews))
      = [buildSearchQuery ''cats'' (Some [''a.org'', ''b.org'']) (Some [''c.org'']),
         buildSearchQuery ''cats'' (Some [''a.org'', ''b.org'']) (Some [''c.org'']),
         buildSearchQuery ''cats'' (Some [''a.org'', ''b.org'']) (Some [''c.org''])]"
    by (simp add: search_configured [OF k ne] Let_def started_def contentTypesOf_def
        webVideoNews_def searchWeb_request_def searchVideos_request_def searchNews_request_def)
  from domain_filters_rewrite_the_request_not_the_result [OF k ne, of "''a.org''" "''b.org''" "''cats''"
      "Some [''c.org'']" "''c.org''" "Some [''a.org'', ''b.org'']" exampleBackend "\<lambda>c. 0" None None
      webVideoNews]
  have "sublist (''(site:'' @ ''a.org'' @ '' OR site:'' @ ''b.org'' @ '')'')
          (buildSearchQuery ''cats'' (Some [''a.org'', ''b.org'']) (Some [''c.org'']))"
    and "sublist (''-site:'' @ ''c.org'')
          (buildSearchQuery ''cats'' (Some [''a.org'', ''b.org'']) (Some [''c.org'']))"
    and "buildSearchQuery ''cats'' (Some [''a.org'', ''b.org'']) (Some [''c.org''])
          = ''cats'' @ '' (site:'' @ ''a.org'' @ '' OR site:'' @ ''b.org'' @ '') -site:'' @ ''c.org''"
    and "\<exists>r. outcome (search configuredProvider exampleBackend (\<lambda>c. 0) ''cats'' None None
        (Some [''a.org'', ''b.org'']) (Some [''c.org'']) webVideoNews) = Inr r \<and> query r = ''cats''"
    by blast+
  then show ?thesis using k ne n by simp
qed

subsection \<open>Failures stay within their category\<close>

lemma failed_handler_state:
  assumes "failed c (fetch (request_of c key s m)) m" and "untouched c res"
  shows "fst (handler c fetch key s m res) = res"
  using assms
  by (cases c) (auto simp: failed_def handler_defs split: handler_splits)

lemma failed_handler_logged:
  assumes "failed c (fetch (request_of c key s m)) m"
  shows "logged c (snd (handler c fetch key s m res))"
  using assms
  by (cases c) (auto simp: failed_def logged_def handler_defs split: handler_splits)

lemma failed_untouched_preserved:
  assumes "failed c (fetch (request_of c key s m)) m" and "untouched c res"
  shows "untouched c (fst (handler d fetch key s m res))"
  using assms
  by (cases c; cases d) (auto simp: failed_def handler_defs split: handler_splits)

lemma resume_skip_failed:
  assumes "failed c (fetch (request_of c key s m)) m" and "untouched c res"
  shows "fst (resume fetch key s m cs (res, lg)) = fst (resume fetch key s m (removeAll c cs) (res, lg'))"
  using assms(2)
proof (induction cs arbitrary: res lg lg')
  case Nil
  then show ?case by simp
next
  case (Cons d cs)
  obtain res' l where h: "handler d fetch key s m res = (res', l)"
    by (cases "handler d fetch key s m res")
  from failed_untouched_preserved [where fetch = fetch and d = d, OF assms(1) Cons.prems] h
  have u: "untouched c res'" by simp
  show ?case
  proof (cases "d = c")
    case True
    with failed_handler_state [where fetch = fetch, OF assms(1) Cons.prems] h have "res' = res" by simp
    with True h Cons.IH [OF Cons.prems, of "lg @ l" lg'] show ?thesis by simp
  next
    case False
    with h Cons.IH [OF u, of "lg @ l" "lg' @ l"] show ?thesis by simp
  qed
qed

lemma resume_log_mono: "set lg \<subseteq> set (snd (resume fetch key s m cs (res, lg)))"
proof (induction cs arbitrary: res lg)
  case Nil
  then show ?case by simp
next
  case (Cons d cs)
  obtain res' l where h: "handler d fetch key s m res = (res', l)"
    by (cases "handler d fetch key s m res")
  with Cons.IH [of "lg @ l" res'] show ?case by auto
qed

lemma logged_mono: "logged c lg \<Longrightarrow> set lg \<subseteq> set lg' \<Longrightarrow> logged c lg'"
  by (auto simp: logged_def)

lemma resume_failed_logged:
  assumes "failed c (fetch (request_of c key s m)) m" and "c \<in> set cs"
  shows "logged c (snd (resume fetch key s m cs (res, lg)))"
  using assms(2)
proof (induction cs arbitrary: res lg)
  case Nil
  then show ?case by simp
next
  case (Cons d cs)
  obtain res' l where h: "handler d fetch key s m res = (res', l)"
    by (cases "handler d fetch key s m res")
  show ?case
  proof (cases "d = c")
    case True
    with failed_handler_logged [where fetch = fetch and res = res, OF assms(1)] h have "logged c (lg @ l)"
      by (auto intro: logged_mono)
    then have "logged c (snd (resume fetch key s m cs (res', lg @ l)))"
      using resume_log_mono by (rule logged_mono)
    with h show ?thesis by simp
  next
    case False
    with Cons.prems have "c \<in> set cs" by simp
    from Cons.IH [OF this, of res' "lg @ l"] h show ?thesis by simp
  qed
qed

lemma resume_untouched:
  assumes "failed c (fetch (request_of c key s m)) m" and "untouched c res"
  shows "untouched c (fst (resume fetch key s m cs (res, lg)))"
  using assms(2)
proof (induction cs arbitrary: res lg)
  case Nil
  then show ?case by simp
next
  case (Cons d cs)
  obtain res' l where h: "handler d fetch key s m res = (res', l)"
    by (cases "handler d fetch key s m res")
  from failed_untouched_preserved [where fetch = fetch and d = d, OF assms(1) Cons.prems] h
  have "untouched c res'" by simp
  from Cons.IH [OF this, of "lg @ l"] h show ?case by simp
qed

lemma started_removeAll: "started (removeAll c cts) = removeAll c (started cts)"
  by (auto simp: started_def)

lemma sort_key_removeAll: "sort_key f (removeAll c xs) = removeAll c (sort_key f xs)"
  by (simp add: removeAll_filter_not_eq filter_sort)

lemma contentTypesOf_without: "contentTypesOf (without c options) = removeAll c (contentTypesOf options)"
  by (simp add: without_def contentTypesOf_def)

lemma results_stay_empty:
  assumes "\<forall>c \<in> set cs. c = Web \<or> c = News \<longrightarrow> failed c (fetch (request_of c key s m)) m"
    and "results res = []"
  shows "results (fst (resume fetch key s m cs (res, lg))) = []"
  using assms
proof (induction cs arbitrary: res lg)
  case Nil
  then show ?case by simp
next
  case (Cons d cs)
  obtain res' l where h: "handler d fetch key s m res = (res', l)"
    by (cases "handler d fetch key s m res")
  have "results res' = []"
  proof (cases "d = Web \<or> d = News")
    case True
    with Cons.prems(1) have "failed d (fetch (request_of d key s m)) m" by auto
    moreover from True have "untouched d res" by auto
    ultimately have "fst (handler d fetch key s m res) = res" by (rule failed_handler_state)
    with h Cons.prems(2) show ?thesis by simp
  next
    case False
    then have "results (fst (handler d fetch key s m res)) = results res"
      by (cases d) (auto simp: handler_defs split: handler_splits)
    with h Cons.prems(2) show ?thesis by simp
  qed
  moreover from Cons.prems(1) have "\<forall>c \<in> set cs. c = Web \<or> c = News \<longrightarrow> failed c (fetch (request_of c key s m)) m"
    by simp
  ultimately have "results (fst (resume fetch key s m cs (res', lg @ l))) = []"
    by (rule Cons.IH [rotated])
  with h show ?case by simp
qed

lemma untouched_initial:
  "untouched c \<lparr> results = [], images = [], videos = [], query = qry, number_of_results = 0 \<rparr>"
  by (cases c) simp_all

text \<open>
  Claim C2. With a key configured, \<open>search\<close> never throws: it returns a result whatever
  the backend answers and in whatever order. Every category that was started and
  failed (its request rejected, a status that is not ok, a body that is no JSON, or a
  payload the normalisation throws on) is logged, and the result returned is the one
  the same call returns when that category is not asked for at all: its own list stays
  empty and the other categories are as they would be without it. So \<open>videos\<close> is empty
  when the video category failed, \<open>images\<close> is empty when the image category failed, and
  \<open>results\<close> is empty when each of web and news failed or was not started. In particular
  \<open>videos\<close> is empty when the video backend answers with a status that is not ok.
\<close>

theorem category_failures_are_isolated:
  assumes "apiKey this = Some key" and "key \<noteq> []"
  shows "\<exists>r. outcome (search this fetch completion qry maxResultsArg searchDepth
                    includeDomains excludeDomains options) = Inr r
     \<and> (\<forall>c \<in> set (started (contentTypesOf options)).
          failed c (fetch (request_of c key (buildSearchQuery qry includeDomains excludeDomains)
                             (maxResultsOf maxResultsArg))) (maxResultsOf maxResultsArg) \<longrightarrow>
            logged c (console (search this fetch completion qry maxResultsArg searchDepth
                                 includeDomains excludeDomains options))
          \<and> outcome (search this fetch completion qry maxResultsArg searchDepth
                        includeDomains excludeDomains (without c options)) = Inr r)
     \<and> (failed Video (fetch (request_of Video key (buildSearchQuery qry includeDomains excludeDomains)
                                (maxResultsOf maxResultsArg))) (maxResultsOf maxResultsArg) \<longrightarrow>
          videos r = [])
     \<and> (failed Image (fetch (request_of Image key (buildSearchQuery qry includeDomains excludeDomains)
                                (maxResultsOf maxResultsArg))) (maxResultsOf maxResultsArg) \<longrightarrow>
          images r = [])
     \<and> ((\<forall>c \<in> set (started (contentTypesOf options)). c = Web \<or> c = News \<longrightarrow>
            failed c (fetch (request_of c key (buildSearchQuery qry includeDomains excludeDomains)
                               (maxResultsOf maxResultsArg))) (maxResultsOf maxResultsArg)) \<longrightarrow>
          results r = [])
     \<and> (\<forall>response. fetch (searchVideos_request key (buildSearchQuery qry includeDomains excludeDomains)
                                (maxResultsOf maxResultsArg)) = FetchResolves response
                      \<and> \<not> ok response \<longrightarrow>
          videos r = [])"
proof -
  define s where "s = buildSearchQuery qry includeDomains excludeDomains"
  define m where "m = maxResultsOf maxResultsArg"
  define res0 where "res0 = \<lparr> results = [], images = [], videos = [], query = qry, number_of_results = 0 \<rparr>"
  define run where "run opts = resume fetch key s m (sort_key completion (started (contentTypesOf opts))) (res0, [])"
    for opts
  define fin where "fin st = (fst st)\<lparr>number_of_results := length (results (fst st))\<rparr>"
    for st :: "SearchResults \<times> log_entry list"
  have out: "outcome (search this fetch completion qry maxResultsArg searchDepth
                    includeDomains excludeDomains opts) = Inr (fin (run opts))" for opts
    by (simp add: search_configured [OF assms] Let_def run_def fin_def s_def m_def res0_def)
  have con: "console (search this fetch completion qry maxResultsArg searchDepth
                    includeDomains excludeDomains opts) = snd (run opts)" for opts
    by (simp add: search_configured [OF assms] Let_def run_def s_def m_def res0_def)
  have u0: "untouched c res0" for c
    unfolding res0_def by (rule untouched_initial)
  have skip: "logged c (snd (run options)) \<and> fin (run (without c options)) = fin (run options)"
    if c: "c \<in> set (started (contentTypesOf options))"
      and f: "failed c (fetch (request_of c key s m)) m" for c
  proof
    from c have "c \<in> set (sort_key completion (started (contentTypesOf options)))" by simp
    with f show "logged c (snd (run options))"
      unfolding run_def by (rule resume_failed_logged [where fetch = fetch])
    have "fst (run options) = fst (run (without c options))"
      unfolding run_def contentTypesOf_without started_removeAll sort_key_removeAll
      by (rule resume_skip_failed [where fetch = fetch, OF f u0])
    then show "fin (run (without c options)) = fin (run options)"
      by (simp add: fin_def)
  qed
  have vid: "videos (fin (run options)) = []" if f: "failed Video (fetch (request_of Video key s m)) m"
    using resume_untouched [where fetch = fetch, OF f u0, of "sort_key completion (started (contentTypesOf options))" "[]"]
    by (simp add: fin_def run_def)
  have img: "images (fin (run options)) = []" if f: "failed Image (fetch (request_of Image key s m)) m"
    using resume_untouched [where fetch = fetch, OF f u0, of "sort_key completion (started (contentTypesOf options))" "[]"]
    by (simp add: fin_def run_def)
  have res: "results (fin (run options)) = []"
    if f: "\<forall>c \<in> set (started (contentTypesOf options)). c = Web \<or> c = News \<longrightarrow>
            failed c (fetch (request_of c key s m)) m"
  proof -
    from f have "\<forall>c \<in> set (sort_key completion (started (contentTypesOf options))). c = Web \<or> c = News \<longrightarrow>
            failed c (fetch (request_of c key s m)) m" by simp
    moreover have "results res0 = []" by (simp add: res0_def)
    ultimately have "results (fst (run options)) = []"
      unfolding run_def by (rule results_stay_empty)
    then show ?thesis by (simp add: fin_def)
  qed
  have notok: "failed Video (fetch (request_of Video key s m)) m"
    if "fetch (searchVideos_request key s m) = FetchResolves response" and "\<not> ok response" for response
    using that by (simp add: failed_def)
  show ?thesis
    unfolding out con s_def [symmetric] m_def [symmetric]
    using skip vid img res notok by (intro exI [of _ "fin (run options)"]) (simp; blast)
qed

theorem category_failures_are_isolated_witness:
  "apiKey configuredProvider = Some ''k'' \<and> ''k'' \<noteq> []
   \<and> Video \<in> set (started (contentTypesOf webVideoNews))
   \<and> failed Video (exampleBackend (request_of Video ''k'' (buildSearchQuery ''cats'' None None)
        (maxResultsOf None))) (maxResultsOf None)
   \<and> (\<exists>response. exampleBackend (searchVideos_request ''k'' (buildSearchQuery ''cats'' None None)
        (maxResultsOf None)) = FetchResolves response \<and> \<not> ok response)
   \<and> (\<exists>r. outcome (search configuredProvider exampleBackend (\<lambda>c. 0) ''cats'' None None None None
                    webVideoNews) = Inr r
        \<and> videos r = []
        \<and> logged Video (console (search configuredProvider exampleBackend (\<lambda>c. 0) ''cats'' None None
                                   None None webVideoNews))
        \<and> outcome (search configuredProvider exampleBackend (\<lambda>c. 0) ''cats'' None None None None
                    (without Video webVideoNews)) = Inr r)"
proof -
  have k: "apiKey configuredProvider = Some ''k''" by (rule configuredProvider_key)
  have ne: "''k'' \<noteq> []" by simp
  have st: "Video \<in> set (started (contentTypesOf webVideoNews))"
    by (simp add: started_def contentTypesOf_def webVideoNews_def)
  have rs: "exampleBackend (searchVideos_request ''k'' (buildSearchQuery ''cats'' None None)
        (maxResultsOf None))
      = FetchResolves \<lparr> ok = False, statusText = ''Forbidden'', json = JsonRejects ''Unexpected token'' \<rparr>"
    by (simp add: exampleBackend_def searchVideos_request_def)
  then have f: "failed Video (exampleBackend (request_of Video ''k'' (buildSearchQuery ''cats'' None None)
        (maxResultsOf None))) (maxResultsOf None)"
    by (simp add: failed_def)
  from rs have ex: "\<exists>response. exampleBackend (searchVideos_request ''k''
        (buildSearchQuery ''cats'' None None) (maxResultsOf None)) = FetchResolves response
        \<and> \<not> ok response"
    by simp
  from category_failures_are_isolated [OF k ne, of exampleBackend "\<lambda>c. 0" "''cats''" None None None
      None webVideoNews]
  obtain r where r: "outcome (search configuredProvider exampleBackend (\<lambda>c. 0) ''cats'' None None None
                    None webVideoNews) = Inr r"
    and iso: "\<forall>c \<in> set (started (contentTypesOf webVideoNews)).
          failed c (exampleBackend (request_of c ''k'' (buildSearchQuery ''cats'' None None)
                             (maxResultsOf None))) (maxResultsOf None) \<longrightarrow>
            logged c (console (search configuredProvider exampleBackend (\<lambda>c. 0) ''cats'' None None
                                   None None webVideoNews))
          \<and> outcome (search configuredProvider exampleBackend (\<lambda>c. 0) ''cats'' None None None None
                    (without c webVideoNews)) = Inr r"
    and v: "failed Video (exampleBackend (request_of Video ''k'' (buildSearchQuery ''cats'' None None)
        (maxResultsOf None))) (maxResultsOf None) \<longrightarrow> videos r = []"
    by blast
  from iso st f have "logged Video (console (search configuredProvider exampleBackend (\<lambda>c. 0) ''cats''
                                   None None None None webVideoNews))
          \<and> outcome (search configuredProvider exampleBackend (\<lambda>c. 0) ''cats'' None None None None
                    (without Video webVideoNews)) = Inr r"
    by blast
  with k ne st f ex r v show ?thesis by blast
qed

subsection \<open>Web and news share one list\<close>

lemma handler_results_other:
  "d = Video \<or> d = Image \<Longrightarrow> results (fst (handler d fetch key s m res)) = results res"
  by (auto simp: handler_defs split: handler_splits)

lemma handler_results_cong:
  "results res1 = results res2 \<Longrightarrow>
   results (fst (handler d fetch key s m res1)) = results (fst (handler d fetch key s m res2))"
  by (cases d) (auto simp: handler_defs split: handler_splits)

lemma resume_results_filter:
  assumes "results res1 = results res2"
  shows "results (fst (resume fetch key s m cs (res1, lg1)))
       = results (fst (resume fetch key s m (filter (\<lambda>c. c = Web \<or> c = News) cs) (res2, lg2)))"
  using assms
proof (induction cs arbitrary: res1 res2 lg1 lg2)
  case Nil
  then show ?case by simp
next
  case (Cons d cs)
  obtain r1 l1 where h1: "handler d fetch key s m res1 = (r1, l1)"
    by (cases "handler d fetch key s m res1")
  obtain r2 l2 where h2: "handler d fetch key s m res2 = (r2, l2)"
    by (cases "handler d fetch key s m res2")
  show ?case
  proof (cases "d = Web \<or> d = News")
    case True
    from handler_results_cong [OF Cons.prems, of d fetch key s m] h1 h2
    have "results r1 = results r2" by simp
    from Cons.IH [OF this, of "lg1 @ l1" "lg2 @ l2"] True h1 h2 show ?thesis by auto
  next
    case False
    then have "d = Video \<or> d = Image" by (cases d) auto
    from handler_results_other [OF this, of fetch key s m res1] h1 Cons.prems
    have "results r1 = results res2" by simp
    from Cons.IH [OF this, of "lg1 @ l1" lg2] False h1 show ?thesis by auto
  qed
qed

lemma started_web_news:
  "Web \<in> set cts \<Longrightarrow> News \<in> set cts \<Longrightarrow> filter (\<lambda>c. c = Web \<or> c = News) (started cts) = [Web, News]"
  by (simp add: started_def)

text \<open>
  What the shared list holds when web and news both succeed: the web items followed by
  the news items when the web handler resumes no later than the news handler, and the
  web items alone otherwise.
\<close>

lemma web_then_news:
  assumes key: "apiKey this = Some key" "key \<noteq> []"
    and cts: "Web \<in> set (contentTypesOf options)" "News \<in> set (contentTypesOf options)"
    and web: "fetch (searchWeb_request key (buildSearchQuery qry includeDomains excludeDomains)
                (maxResultsOf maxResultsArg)) = FetchResolves wr"
             "ok wr" "json wr = JsonResolves wdata"
             "webItems wdata (maxResultsOf maxResultsArg) = Inr ws"
    and news: "fetch (searchNews_request key (buildSearchQuery qry includeDomains excludeDomains)
                (maxResultsOf maxResultsArg)) = FetchResolves nr"
             "ok nr" "json nr = JsonResolves ndata"
             "newsItems ndata (maxResultsOf maxResultsArg) = Inr ns"
    and out: "outcome (search this fetch completion qry maxResultsArg searchDepth
                includeDomains excludeDomains options) = Inr r"
  shows "results r = (if completion Web \<le> completion News then ws @ ns else ws)"
proof -
  define s where "s = buildSearchQuery qry includeDomains excludeDomains"
  define m where "m = maxResultsOf maxResultsArg"
  define res0 where "res0 = \<lparr> results = [], images = [], videos = [], query = qry, number_of_results = 0 \<rparr>"
  from out have "results r = results (fst (resume fetch key s m
      (sort_key completion (started (contentTypesOf options))) (res0, [])))"
    by (auto simp: search_configured [OF key] Let_def s_def m_def res0_def)
  also have "\<dots> = results (fst (resume fetch key s m
      (filter (\<lambda>c. c = Web \<or> c = News) (sort_key completion (started (contentTypesOf options)))) (res0, [])))"
    by (rule resume_results_filter) simp
  also have "filter (\<lambda>c. c = Web \<or> c = News) (sort_key completion (started (contentTypesOf options)))
      = sort_key completion [Web, News]"
    by (simp only: filter_sort started_web_news [OF cts])
  also have "results (fst (resume fetch key s m (sort_key completion [Web, News]) (res0, [])))
      = (if completion Web \<le> completion News then ws @ ns else ws)"
    using web news by (simp add: searchWeb_def searchNews_def s_def m_def res0_def)
  finally show ?thesis .
qed

lemma web_first_keeps_news:
  "outcome (search configuredProvider exampleBackend (\<lambda>c. 0) ''cats'' None None None None webAndNews)
   = Inr \<lparr> results =
            [\<lparr> SearchResultItem.title = Val (JStr ''w1''), url = Val (JStr ''https://w1''),
               content = Val (JStr ''one'') \<rparr>,
             \<lparr> SearchResultItem.title = Val (JStr ''w2''), url = Val (JStr ''https://w2''),
               content = Val (JStr ''two'') \<rparr>,
             \<lparr> SearchResultItem.title = Val (JStr ''n1''), url = Val (JStr ''https://n1''),
               content = Val (JStr ''three'') \<rparr>],
           images = [], videos = [], query = ''cats'', number_of_results = 3 \<rparr>"
  by (simp add: search_def configuredProvider_def constructor_def exampleBackend_def
      webAndNews_def eval_defs)

text \<open>
  Claim C3 says that with web and news both asked for and both successful, \<open>results\<close>
  holds the web items followed by the news items: with two organic items and one news
  item, three results and the count 3. The code appends the news items to what the list
  holds when the news handler resumes, and the web handler assigns the list. So when
  the news response is there before the web response, the news item is overwritten:
  \<open>results\<close> holds the two web items only and the count is 2.
\<close>

theorem news_arriving_first_is_overwritten:
  "outcome (search configuredProvider exampleBackend newsFirst ''cats'' None None None None webAndNews)
   = Inr \<lparr> results =
            [\<lparr> SearchResultItem.title = Val (JStr ''w1''), url = Val (JStr ''https://w1''),
               content = Val (JStr ''one'') \<rparr>,
             \<lparr> SearchResultItem.title = Val (JStr ''w2''), url = Val (JStr ''https://w2''),
               content = Val (JStr ''two'') \<rparr>],
           images = [], videos = [], query = ''cats'', number_of_results = 2 \<rparr>"
  by (simp add: search_def configuredProvider_def constructor_def exampleBackend_def
      webAndNews_def newsFirst_def eval_defs)

end
